theory Spec2Isabelle
  imports Main "HOL-Library.Sublist" "HOL-Library.AList" "HOL-Library.Multiset"
begin

section \<open>Python values, exceptions and effects\<close>

text \<open>
  The orchestrator \<^verbatim>\<open>autocrew.py\<close> is a sequence of calls into its environment (the
  \<^verbatim>\<open>AutoCrew\<close> object, \<^verbatim>\<open>logging\<close>, \<^verbatim>\<open>subprocess\<close>, \<^verbatim>\<open>input\<close>) wrapped in
  \<^verbatim>\<open>try\<close>/\<^verbatim>\<open>except Exception\<close> blocks that end in \<^verbatim>\<open>sys.exit\<close>.

  An exception of a class below \<^verbatim>\<open>Exception\<close> is a value of \<open>exn\<close>. \<^verbatim>\<open>sys.exit(k)\<close> raises
  \<^verbatim>\<open>SystemExit\<close>, which is not below \<^verbatim>\<open>Exception\<close> and so passes every handler of the
  file: it is the separate outcome \<open>Exit k\<close>. An interrupt from the keyboard, the other
  exception that no handler of the file catches, is not part of the model.
\<close>

datatype exn =
    ValueError string
  | ArgumentTypeError string
  | EOFError
  | OtherException string

datatype 'a result = Return 'a | Raise exn | Exit int

text \<open>
  What the orchestrator does to its environment, in order: the records it hands to
  \<^verbatim>\<open>logging\<close>, the lines it prints and the calls it issues, each with its arguments.
  These are the events of the functions embedded below; what a callee logs on its own
  (\<^verbatim>\<open>install_dependencies\<close>, \<^verbatim>\<open>upgrade_autocrew\<close>, the methods of \<^verbatim>\<open>AutoCrew\<close>) is not
  among them. \<open>'r\<close> is the type of the ranking that \<^verbatim>\<open>rank_crews\<close> returns.
\<close>

datatype 'r event =
    LogInfo string
  | LogError string
  | LogException string
  | Print string
  | PrintHelp
  | SubprocessRun "string list"
  | InstallDependencies
  | UpgradeAutocrew string
  | UpdateConfigFileWithParams "(string \<times> (string \<times> string) list) list" bool
  | NewAutoCrew
  | LogConfigWithRedactedApiKeys
  | Input string
  | ConfigGetint
  | GenerateScripts string int
  | GetExistingScripts string
  | RankCrews "string list" "string option" bool
  | SaveRankingOutput 'r string

text \<open>
  A statement block run in a world \<open>'s\<close> (files, backend, terminal): its outcome, the
  events it issued and the world it leaves.
\<close>

type_synonym ('a, 's, 'r) prog = "'s \<Rightarrow> 'a result \<times> 'r event list \<times> 's"

definition py_return :: "'a \<Rightarrow> ('a, 's, 'r) prog" where
  "py_return x s = (Return x, [], s)"

definition sys_exit :: "int \<Rightarrow> ('a, 's, 'r) prog" where
  "sys_exit k s = (Exit k, [], s)"

definition py_raise :: "exn \<Rightarrow> ('a, 's, 'r) prog" where
  "py_raise e s = (Raise e, [], s)"

definition emit :: "'r event \<Rightarrow> (unit, 's, 'r) prog" where
  "emit ev s = (Return (), [ev], s)"

text \<open>Sequencing: the second block runs only when the first returns.\<close>

definition py_then :: "('a, 's, 'r) prog \<Rightarrow> ('a \<Rightarrow> ('b, 's, 'r) prog) \<Rightarrow> ('b, 's, 'r) prog" where
  "py_then p f s =
     (case p s of
        (Return x, tr, s1) \<Rightarrow> (case f x s1 of (res, tr2, s2) \<Rightarrow> (res, tr @ tr2, s2))
      | (Raise e, tr, s1) \<Rightarrow> (Raise e, tr, s1)
      | (Exit k, tr, s1) \<Rightarrow> (Exit k, tr, s1))"

text \<open>
  \<^verbatim>\<open>try: p  except Exception as e: h(e)\<close>. Only \<open>Raise\<close> reaches the handler;
  \<open>Exit\<close> (\<^verbatim>\<open>SystemExit\<close>) passes through.
\<close>

definition try_except :: "('a, 's, 'r) prog \<Rightarrow> (exn \<Rightarrow> ('a, 's, 'r) prog) \<Rightarrow> ('a, 's, 'r) prog" where
  "try_except p h s =
     (case p s of
        (Raise e, tr, s1) \<Rightarrow> (case h e s1 of (res, tr2, s2) \<Rightarrow> (res, tr @ tr2, s2))
      | (Return x, tr, s1) \<Rightarrow> (Return x, tr, s1)
      | (Exit k, tr, s1) \<Rightarrow> (Exit k, tr, s1))"

text \<open>
  A call into the environment: the call is recorded, then the callee acts on the world
  and returns or raises.
\<close>

definition call :: "'r event \<Rightarrow> ('s \<Rightarrow> (exn + 'a) \<times> 's) \<Rightarrow> ('a, 's, 'r) prog" where
  "call ev f s =
     (case f s of
        (Inl e, s1) \<Rightarrow> (Raise e, [ev], s1)
      | (Inr x, s1) \<Rightarrow> (Return x, [ev], s1))"

section \<open>Python built-ins used by the file\<close>

text \<open>
  \<^verbatim>\<open>s[:k]\<close>: the first \<open>k\<close> items, and for a negative \<open>k\<close> all but the last \<open>-k\<close>.
\<close>

definition py_slice_to :: "'a list \<Rightarrow> int \<Rightarrow> 'a list" where
  "py_slice_to xs k = (if 0 \<le> k then take (nat k) xs else take (length xs - nat (- k)) xs)"

text \<open>\<^verbatim>\<open>str.isspace\<close> on the ASCII range, and \<^verbatim>\<open>str.strip()\<close>.\<close>

definition is_space :: "char \<Rightarrow> bool" where
  "is_space c = (let n = (of_char c :: nat) in n = 32 \<or> (9 \<le> n \<and> n \<le> 13) \<or> (28 \<le> n \<and> n \<le> 31))"

definition strip :: "string \<Rightarrow> string" where
  "strip s = rev (dropWhile is_space (rev (dropWhile is_space s)))"

definition is_digit :: "char \<Rightarrow> bool" where
  "is_digit c = (let n = (of_char c :: nat) in 48 \<le> n \<and> n \<le> 57)"

definition digit_val :: "char \<Rightarrow> nat" where
  "digit_val c = of_char c - 48"

text \<open>
  \<^verbatim>\<open>int(s)\<close> on an ASCII string: surrounding whitespace is dropped, one sign is allowed,
  then decimal digits, where single underscores may stand between digits. \<open>None\<close> is
  \<^verbatim>\<open>ValueError\<close>. \<open>int_body prev acc\<close> reads the digits; \<open>prev\<close> says that the character
  before was a digit.
\<close>

fun int_body :: "bool \<Rightarrow> nat \<Rightarrow> string \<Rightarrow> nat option" where
  "int_body prev acc [] = (if prev then Some acc else None)"
| "int_body prev acc (c # cs) =
     (if is_digit c then int_body True (acc * 10 + digit_val c) cs
      else if c = CHR ''_'' \<and> prev then int_body False acc cs
      else None)"

definition py_int :: "string \<Rightarrow> int option" where
  "py_int s =
     (case strip s of
        [] \<Rightarrow> None
      | c # cs \<Rightarrow>
          if c = CHR ''-'' then map_option (\<lambda>n. - int n) (int_body False 0 cs)
          else if c = CHR ''+'' then map_option int (int_body False 0 cs)
          else map_option int (int_body False 0 (c # cs)))"

text \<open>\<^verbatim>\<open>str(n)\<close> for an integer, as the f-strings of the file format it.\<close>

function str_nat :: "nat \<Rightarrow> string" where
  "str_nat n =
     (if n < 10 then [''0123456789'' ! n]
      else str_nat (n div 10) @ [''0123456789'' ! (n mod 10)])"
  by pat_completeness auto
termination
  by (relation "measure id") auto

declare str_nat.simps [simp del]

definition str_int :: "int \<Rightarrow> string" where
  "str_int k = (if k < 0 then CHR ''-'' # str_nat (nat (- k)) else str_nat (nat k))"

text \<open>
  \<^verbatim>\<open>s.replace('.csv', '.py')\<close>: every occurrence, left to right, without overlap.
\<close>

function replace_csv_py :: "string \<Rightarrow> string" where
  "replace_csv_py s =
     (if s = [] then []
      else if take 4 s = ''.csv'' then ''.py'' @ replace_csv_py (drop 4 s)
      else hd s # replace_csv_py (tl s))"
  by pat_completeness auto
termination
  by (relation "measure length") (auto simp: neq_Nil_conv)

declare replace_csv_py.simps [simp del]

text \<open>\<^verbatim>\<open>sep.join(xs)\<close>.\<close>

fun join :: "string \<Rightarrow> string list \<Rightarrow> string" where
  "join sep [] = []"
| "join sep [x] = x"
| "join sep (x # y # ys) = x @ sep @ join sep (y # ys)"

text \<open>
  \<^verbatim>\<open>s.split(c, 1)\<close> unpacked into two names: the parts around the first \<open>c\<close>; without a
  \<open>c\<close> the unpacking raises \<^verbatim>\<open>ValueError\<close> (\<open>None\<close>).
\<close>

definition split_once :: "char \<Rightarrow> string \<Rightarrow> (string \<times> string) option" where
  "split_once c s =
     (if c \<in> set s then Some (takeWhile (\<lambda>x. x \<noteq> c) s, tl (dropWhile (\<lambda>x. x \<noteq> c) s))
      else None)"

section \<open>Command-line arguments\<close>

text \<open>
  The namespace that \<^verbatim>\<open>parse_arguments\<close> returns. The options are single letters in
  the source; each field carries the prefix \<open>arg_\<close>. \<^verbatim>\<open>-c\<close> is \<^verbatim>\<open>action='append'\<close>
  (\<^verbatim>\<open>None\<close> or a list), \<^verbatim>\<open>-m\<close> is \<^verbatim>\<open>None\<close> or what \<^verbatim>\<open>positive_int\<close> returned, the goal
  is \<^verbatim>\<open>None\<close> or a string.
\<close>

record args =
  arg_a :: bool
  arg_c :: "string list option"
  arg_d :: bool
  arg_h :: bool
  arg_m :: "int option"
  arg_r :: bool
  arg_u :: bool
  arg_v :: bool
  arg_w :: bool
  overall_goal :: "string option"

text \<open>
  Truth values of Python: \<^verbatim>\<open>None\<close>, \<^verbatim>\<open>0\<close>, the empty list and the empty string are false.
  \<open>truthy_list\<close> is the truth value of \<^verbatim>\<open>args.c\<close>; where the source tests \<^verbatim>\<open>args.m\<close> and
  \<^verbatim>\<open>args.overall_goal\<close>, the cases are written out.
\<close>

definition truthy_list :: "'a list option \<Rightarrow> bool" where
  "truthy_list v = (case v of None \<Rightarrow> False | Some xs \<Rightarrow> xs \<noteq> [])"

section \<open>The functions of autocrew.py\<close>

subsection \<open>positive_int\<close>

text \<open>
  The \<^verbatim>\<open>type=\<close> function of \<^verbatim>\<open>-m\<close>. \<open>to_int\<close> is \<^verbatim>\<open>int\<close>; the terminal is the list of
  lines that \<^verbatim>\<open>input()\<close> will read, and \<^verbatim>\<open>input()\<close> at its end raises \<^verbatim>\<open>EOFError\<close>.
  \<^verbatim>\<open>ArgumentTypeError\<close> is not a \<^verbatim>\<open>ValueError\<close>, so the handler does not catch it.
  The result is the outcome, the lines printed and the lines left to read.
\<close>

fun read_int_loop :: "(string \<Rightarrow> int option) \<Rightarrow> string list \<Rightarrow> int result \<times> string list \<times> string list" where
  "read_int_loop to_int [] = (Raise EOFError, [], [])"
| "read_int_loop to_int (line # rest) =
     (case to_int line of
        Some k \<Rightarrow> (Return k, [], rest)
      | None \<Rightarrow>
          (case read_int_loop to_int rest of
             (res, out, rest') \<Rightarrow> (res, ''Invalid input. Please enter a valid number.'' # out, rest')))"

definition positive_int :: "(string \<Rightarrow> int option) \<Rightarrow> string \<Rightarrow> string list \<Rightarrow> int result \<times> string list \<times> string list" where
  "positive_int to_int v stdin =
     (case to_int v of
        Some ivalue \<Rightarrow>
          if ivalue \<le> 0 then (Raise (ArgumentTypeError (v @ '' is an invalid positive int value'')), [], stdin)
          else (Return ivalue, [], stdin)
      | None \<Rightarrow>
          (case read_int_loop to_int stdin of
             (res, out, rest) \<Rightarrow>
               (res, ''Please specify the total number of alternative scripts to generate: '' # out, rest)))"

subsection \<open>truncate_overall_goal\<close>

definition truncate_overall_goal :: "string \<Rightarrow> int \<Rightarrow> string" where
  "truncate_overall_goal goal max_length = py_slice_to goal max_length"

subsection \<open>The AutoCrew object and the rest of the environment\<close>

text \<open>
  The class \<^verbatim>\<open>AutoCrew\<close> comes from the module \<^verbatim>\<open>core\<close>, which is not part of the file.
  Its methods are parameters: each acts on the world and returns or raises. The
  argument lists are those of the call sites in \<^verbatim>\<open>autocrew.py\<close>.
\<close>

record ('s, 'r) autocrew =
  generate_scripts :: "string \<Rightarrow> int \<Rightarrow> 's \<Rightarrow> (exn + string list) \<times> 's"
  get_existing_scripts :: "string \<Rightarrow> 's \<Rightarrow> (exn + string list) \<times> 's"
  rank_crews :: "string list \<Rightarrow> string option \<Rightarrow> bool \<Rightarrow> 's \<Rightarrow> (exn + 'r \<times> string) \<times> 's"
  save_ranking_output :: "'r \<Rightarrow> string \<Rightarrow> 's \<Rightarrow> (exn + unit) \<times> 's"
  log_config_with_redacted_api_keys :: "'s \<Rightarrow> (exn + unit) \<times> 's"

text \<open>
  The rest of what \<^verbatim>\<open>main\<close> reaches: the interpreter (\<^verbatim>\<open>sys.argv\<close>, \<^verbatim>\<open>sys.executable\<close>,
  \<^verbatim>\<open>subprocess.run\<close>, \<^verbatim>\<open>input\<close>), \<^verbatim>\<open>argparse\<close> behind \<^verbatim>\<open>parse_arguments\<close> (it returns
  the namespace, or leaves through \<^verbatim>\<open>SystemExit\<close> on a usage error, or lets an
  exception of a \<^verbatim>\<open>type=\<close> function through), \<^verbatim>\<open>configparser\<close>, the comparison of
  \<^verbatim>\<open>packaging.version\<close>, and the functions of the file whose bodies are file and network
  traffic only (\<^verbatim>\<open>check_latest_version\<close>, whose handlers all return;
  \<^verbatim>\<open>install_dependencies\<close>; \<^verbatim>\<open>upgrade_autocrew\<close>, which ends in \<^verbatim>\<open>sys.exit(0)\<close> when
  it does not raise; \<^verbatim>\<open>update_config_file_with_params\<close>), each by its outcome.
  \<^verbatim>\<open>setup_logging\<close>, \<^verbatim>\<open>logging\<close> and \<^verbatim>\<open>print\<close> are taken not to fail; of them only the
  records and lines of the orchestrator are kept.
\<close>

record ('s, 'r) system =
  sys_argv :: "string list"
  sys_executable :: string
  subprocess_run :: "string list \<Rightarrow> 's \<Rightarrow> (exn + unit) \<times> 's"
  input :: "string \<Rightarrow> 's \<Rightarrow> (exn + string) \<times> 's"
  parse_arguments :: "'s \<Rightarrow> args result \<times> 's"
  check_latest_version :: "'s \<Rightarrow> (string \<times> string) \<times> 's"
  version_newer :: "string \<Rightarrow> string \<Rightarrow> exn + bool"
  install_dependencies :: "'s \<Rightarrow> (exn + unit) \<times> 's"
  upgrade_autocrew :: "string \<Rightarrow> 's \<Rightarrow> (exn + unit) \<times> 's"
  update_config_file_with_params ::
    "(string \<times> (string \<times> string) list) list \<Rightarrow> bool \<Rightarrow> 's \<Rightarrow> (exn + unit) \<times> 's"
  new_AutoCrew :: "'s \<Rightarrow> (exn + ('s, 'r) autocrew) \<times> 's"
  config_getint :: "'s \<Rightarrow> (exn + int) \<times> 's"

definition AUTOCREW_VERSION :: string where
  "AUTOCREW_VERSION = ''3.1.0''"

definition newline :: char where
  "newline = CHR 0x0A"

definition dquote :: char where
  "dquote = CHR 0x22"

definition exn_str :: "exn \<Rightarrow> string" where
  "exn_str e = (case e of ValueError m \<Rightarrow> m | ArgumentTypeError m \<Rightarrow> m | EOFError \<Rightarrow> [] | OtherException m \<Rightarrow> m)"

subsection \<open>parse_config_parameters\<close>

text \<open>
  The dictionary of dictionaries keeps insertion order, as Python's does:
  \<open>AList.update\<close> replaces the value of a key in place and appends a new key.
\<close>

fun parse_config_parameters ::
  "(string \<times> (string \<times> string) list) list \<Rightarrow> string list \<Rightarrow> exn + (string \<times> (string \<times> string) list) list" where
  "parse_config_parameters config_dict [] = Inr config_dict"
| "parse_config_parameters config_dict (param # rest) =
     (case split_once CHR ''.'' param of
        None \<Rightarrow> Inl (ArgumentTypeError (''Invalid config parameter format: '' @ param))
      | Some (section, key_value) \<Rightarrow>
          (case split_once CHR ''='' key_value of
             None \<Rightarrow> Inl (ArgumentTypeError (''Invalid config parameter format: '' @ param))
           | Some (key, val) \<Rightarrow>
               (let inner = (case map_of config_dict (strip section) of None \<Rightarrow> [] | Some d \<Rightarrow> d)
                in parse_config_parameters
                     (AList.update (strip section) (AList.update (strip key) (strip val) inner) config_dict)
                     rest)))"

subsection \<open>The handlers of the options\<close>

definition handle_install_dependencies :: "args \<Rightarrow> ('s, 'r) system \<Rightarrow> (unit, 's, 'r) prog" where
  "handle_install_dependencies args sys =
     (if arg_d args then
        py_then (call InstallDependencies (install_dependencies sys)) (\<lambda>_. sys_exit 0)
      else py_return ())"

definition handle_help :: "args \<Rightarrow> (unit, 's, 'r) prog" where
  "handle_help args =
     (if arg_h args then py_then (emit PrintHelp) (\<lambda>_. sys_exit 0) else py_return ())"

definition handle_upgrade :: "args \<Rightarrow> ('s, 'r) system \<Rightarrow> string \<Rightarrow> (unit, 's, 'r) prog" where
  "handle_upgrade args sys latest_version =
     (if arg_u args then
        (case version_newer sys latest_version AUTOCREW_VERSION of
           Inl e \<Rightarrow> py_raise e
         | Inr newer \<Rightarrow>
             py_then
               (if newer then
                  py_then (call (UpgradeAutocrew latest_version) (upgrade_autocrew sys latest_version))
                    (\<lambda>_. sys_exit 0)
                else emit (LogInfo ''No new version available or you are already running the latest version.''))
               (\<lambda>_. sys_exit 0))
      else py_return ())"

definition handle_config_update :: "args \<Rightarrow> ('s, 'r) system \<Rightarrow> (unit, 's, 'r) prog" where
  "handle_config_update args sys =
     (case arg_c args of
        None \<Rightarrow> py_return ()
      | Some params \<Rightarrow>
          if params = [] then py_return ()
          else
            (case parse_config_parameters [] params of
               Inl e \<Rightarrow> py_raise e
             | Inr config_dict \<Rightarrow>
                 call (UpdateConfigFileWithParams config_dict (arg_w args))
                   (update_config_file_with_params sys config_dict (arg_w args))))"

subsection \<open>generate_and_run_scripts\<close>

text \<open>The loop of \<^verbatim>\<open>-a\<close>: one interpreter per generated script; an exception ends it.\<close>

fun run_scripts :: "('s, 'r) system \<Rightarrow> string list \<Rightarrow> (unit, 's, 'r) prog" where
  "run_scripts sys [] = py_return ()"
| "run_scripts sys (path # rest) =
     (let script_path = replace_csv_py path in
      py_then (call (SubprocessRun [sys_executable sys, script_path])
                 (subprocess_run sys [sys_executable sys, script_path]))
        (\<lambda>_. run_scripts sys rest))"

definition generate_and_run_scripts ::
  "args \<Rightarrow> ('s, 'r) system \<Rightarrow> ('s, 'r) autocrew \<Rightarrow> string \<Rightarrow> (string list, 's, 'r) prog" where
  "generate_and_run_scripts args sys autocrew truncated_overall_goal =
     (let num_scripts_to_generate =
            (case arg_m args of None \<Rightarrow> 1 | Some k \<Rightarrow> if k = 0 then 1 else k);
          no_script_generation_params =
            (truthy_list (arg_c args) \<or> arg_h args \<or> arg_d args \<or> arg_u args)
      in
        if \<not> no_script_generation_params then
          try_except
            (py_then (emit (LogInfo (''Generating '' @ str_int num_scripts_to_generate @ '' alternative scripts...''))) (\<lambda>_.
             py_then (call (GenerateScripts truncated_overall_goal num_scripts_to_generate)
                        (generate_scripts autocrew truncated_overall_goal num_scripts_to_generate)) (\<lambda>csv_file_paths.
             py_then (if arg_a args then run_scripts sys csv_file_paths else py_return ()) (\<lambda>_.
             py_return csv_file_paths))))
            (\<lambda>e. py_then (emit (LogException ''An error occurred during script generation.'')) (\<lambda>_. sys_exit 1))
        else py_return [])"

subsection \<open>handle_ranking\<close>

definition handle_ranking ::
  "args \<Rightarrow> ('s, 'r) autocrew \<Rightarrow> string \<Rightarrow> string list \<Rightarrow> (unit, 's, 'r) prog" where
  "handle_ranking args autocrew truncated_overall_goal csv_file_paths =
     (if arg_r args then
        try_except
          (py_then (emit (LogInfo ''Ranking process initiated.'')) (\<lambda>_.
           py_then (if csv_file_paths = [] then
                      call (GetExistingScripts truncated_overall_goal)
                        (get_existing_scripts autocrew truncated_overall_goal)
                    else py_return csv_file_paths) (\<lambda>csv_file_paths.
           py_then (if csv_file_paths = [] then
                      py_then (emit (LogError ''No existing scripts found to rank.'')) (\<lambda>_. sys_exit 1)
                    else py_return ()) (\<lambda>_.
           py_then (call (RankCrews csv_file_paths (overall_goal args) (arg_v args))
                      (rank_crews autocrew csv_file_paths (overall_goal args) (arg_v args))) (\<lambda>(ranked_crews, overall_summary).
           py_then (emit (LogInfo (''Ranking prompt:'' @ [newline] @ overall_summary @ [newline]))) (\<lambda>_.
           py_then (call (SaveRankingOutput ranked_crews truncated_overall_goal)
                      (save_ranking_output autocrew ranked_crews truncated_overall_goal)) (\<lambda>_.
           emit (LogInfo ''Ranking process completed.''))))))))
          (\<lambda>e. py_then (emit (LogException ''An error occurred during script ranking.'')) (\<lambda>_. sys_exit 1))
      else py_return ())"

subsection \<open>main\<close>

definition generate_startup_message :: "string \<Rightarrow> string \<Rightarrow> string" where
  "generate_startup_message latest_version version_message =
     [newline] @ ''Welcome to AutoCrew!'' @ [newline]
     @ ''Use the -? or -h command line options to display help information.'' @ [newline]
     @ ''Settings can be modified within '' @ [dquote] @ ''config.ini'' @ [dquote]
     @ ''. Scripts are saved in the '' @ [dquote] @ ''scripts'' @ [dquote] @ '' subdirectory.'' @ [newline]
     @ ''If you experience any errors, please create an issue on Github and attach ''
     @ [dquote] @ ''autocrew.log'' @ [dquote] @ '':'' @ [newline]
     @ ''https://github.com/yanniedog/autocrew/issues/new'' @ [newline]
     @ [newline] @ ''AutoCrew version: '' @ AUTOCREW_VERSION @ [newline]
     @ version_message @ [newline]"

definition log_command_line_arguments :: "('s, 'r) system \<Rightarrow> (unit, 's, 'r) prog" where
  "log_command_line_arguments sys =
     emit (LogInfo (''Command-line arguments: '' @ join '' '' (drop 1 (sys_argv sys))))"

text \<open>The body of the \<^verbatim>\<open>try\<close> of \<^verbatim>\<open>main\<close>.\<close>

definition main_try :: "('s, 'r) system \<Rightarrow> args \<Rightarrow> (unit, 's, 'r) prog" where
  "main_try sys args =
     py_then (\<lambda>s. case check_latest_version sys s of (v, s1) \<Rightarrow> (Return v, [], s1)) (\<lambda>(latest_version, version_message).
     py_then (emit (LogInfo (generate_startup_message latest_version version_message))) (\<lambda>_.
     py_then (handle_help args) (\<lambda>_.
     py_then (handle_install_dependencies args sys) (\<lambda>_.
     py_then (handle_upgrade args sys latest_version) (\<lambda>_.
     py_then (handle_config_update args sys) (\<lambda>_.
     py_then (call NewAutoCrew (new_AutoCrew sys)) (\<lambda>autocrew.
     py_then (call LogConfigWithRedactedApiKeys (log_config_with_redacted_api_keys autocrew)) (\<lambda>_.
     py_then (case overall_goal args of
                None \<Rightarrow> call (Input ''Please set the overall goal for your crew: '')
                          (input sys ''Please set the overall goal for your crew: '')
              | Some g \<Rightarrow>
                  if g = [] then call (Input ''Please set the overall goal for your crew: '')
                                   (input sys ''Please set the overall goal for your crew: '')
                  else py_return g) (\<lambda>goal.
     py_then (call ConfigGetint (config_getint sys)) (\<lambda>max_length.
     (let args = args\<lparr>overall_goal := Some goal\<rparr>;
          truncated_overall_goal = truncate_overall_goal goal max_length
      in py_then (generate_and_run_scripts args sys autocrew truncated_overall_goal) (\<lambda>csv_file_paths.
         handle_ranking args autocrew truncated_overall_goal csv_file_paths))))))))))))"

definition main :: "('s, 'r) system \<Rightarrow> (unit, 's, 'r) prog" where
  "main sys =
     py_then (emit (LogInfo ''Starting AutoCrew script'')) (\<lambda>_.
     py_then (if length (sys_argv sys) = 1 then
                py_then (emit (Print ([newline] @ ''Welcome to AutoCrew!'' @ [newline] @ ''Let'' @ [CHR 0x27] @ ''s get started.'' @ [newline]))) (\<lambda>_.
                py_then (call (SubprocessRun [''python3'', ''welcome.py''])
                           (subprocess_run sys [''python3'', ''welcome.py''])) (\<lambda>_.
                sys_exit 0))
              else py_return ()) (\<lambda>_.
     py_then (\<lambda>s. case parse_arguments sys s of (res, s1) \<Rightarrow> (res, [], s1)) (\<lambda>args.
     py_then (log_command_line_arguments sys) (\<lambda>_.
     py_then (try_except (main_try sys args)
                (\<lambda>e. py_then (emit (LogException (''An unexpected error occurred: '' @ exn_str e))) (\<lambda>_. sys_exit 1))) (\<lambda>_.
     py_then (emit (LogInfo ''AutoCrew script finished successfully'')) (\<lambda>_.
     sys_exit 0))))))"

text \<open>The block under \<^verbatim>\<open>if __name__ == '__main__'\<close>.\<close>

definition program :: "('s, 'r) system \<Rightarrow> (unit, 's, 'r) prog" where
  "program sys =
     try_except (main sys)
       (\<lambda>e. py_then (emit (LogException (''An unhandled exception occurred: '' @ exn_str e))) (\<lambda>_. sys_exit 1))"

section \<open>Reading a run\<close>

text \<open>The calls of one kind among the events of a run, with their arguments, in order.\<close>

fun generation_calls :: "'r event list \<Rightarrow> (string \<times> int) list" where
  "generation_calls [] = []"
| "generation_calls (GenerateScripts g n # tr) = (g, n) # generation_calls tr"
| "generation_calls (_ # tr) = generation_calls tr"

fun discovery_calls :: "'r event list \<Rightarrow> string list" where
  "discovery_calls [] = []"
| "discovery_calls (GetExistingScripts g # tr) = g # discovery_calls tr"
| "discovery_calls (_ # tr) = discovery_calls tr"

fun ranking_calls :: "'r event list \<Rightarrow> (string list \<times> string option \<times> bool) list" where
  "ranking_calls [] = []"
| "ranking_calls (RankCrews ps g v # tr) = (ps, g, v) # ranking_calls tr"
| "ranking_calls (_ # tr) = ranking_calls tr"

fun save_calls :: "'r event list \<Rightarrow> ('r \<times> string) list" where
  "save_calls [] = []"
| "save_calls (SaveRankingOutput rk g # tr) = (rk, g) # save_calls tr"
| "save_calls (_ # tr) = save_calls tr"

text \<open>
  The records of level ERROR among the events: \<^verbatim>\<open>logging.error\<close> and
  \<^verbatim>\<open>logging.exception\<close>. The embedded functions write them in their \<^verbatim>\<open>except\<close> handlers
  and, in \<^verbatim>\<open>handle_ranking\<close>, when there is nothing to rank.
\<close>

fun is_error :: "'r event \<Rightarrow> bool" where
  "is_error (LogError m) = True"
| "is_error (LogException m) = True"
| "is_error _ = False"

definition reports_error :: "'r event list \<Rightarrow> bool" where
  "reports_error tr = (filter is_error tr \<noteq> [])"




section \<open>The parts of the ranking that are outside the file\<close>






text \<open>
  Modelled from the spec: what the three methods that \<^verbatim>\<open>handle_ranking\<close> calls do to the
  persisted candidates; their bodies are in \<^verbatim>\<open>core.py\<close>. By sections 4.1, 4.4 and 4.5 of
  the specification, discovery lists the store, ranking reads the candidates through
  the store and calls the backend, and the report writer writes one artifact of its own
  and makes no partial write when it fails. \<open>cands\<close> reads the persisted candidates off
  the world.
\<close>

definition ranking_methods_keep_candidates :: "('s \<Rightarrow> 'c) \<Rightarrow> ('s, 'r) autocrew \<Rightarrow> bool" where
  "ranking_methods_keep_candidates cands autocrew =
     ((\<forall>g s. cands (snd (get_existing_scripts autocrew g s)) = cands s)
      \<and> (\<forall>ps g v s. cands (snd (rank_crews autocrew ps g v s)) = cands s)
      \<and> (\<forall>rk g s e. fst (save_ranking_output autocrew rk g s) = Inl e
            \<longrightarrow> cands (snd (save_ranking_output autocrew rk g s)) = cands s))"

section \<open>Environments with fixed answers\<close>

text \<open>
  An \<^verbatim>\<open>AutoCrew\<close> whose methods give the same answer to every call and leave the world
  as it is, and a system around it in which every other step succeeds: \<^verbatim>\<open>argparse\<close>
  returns \<open>args\<close>, the configuration holds \<open>max_length\<close>, no newer version exists.
\<close>

definition scripted_autocrew ::
  "(exn + string list) \<Rightarrow> (exn + string list) \<Rightarrow> (exn + 'r \<times> string) \<Rightarrow> (exn + unit) \<Rightarrow> ('s, 'r) autocrew" where
  "scripted_autocrew generated existing ranked saved =
     \<lparr> generate_scripts = (\<lambda>g n s. (generated, s)),
       get_existing_scripts = (\<lambda>g s. (existing, s)),
       rank_crews = (\<lambda>ps g v s. (ranked, s)),
       save_ranking_output = (\<lambda>rk g s. (saved, s)),
       log_config_with_redacted_api_keys = (\<lambda>s. (Inr (), s)) \<rparr>"

definition scripted_system :: "string list \<Rightarrow> args \<Rightarrow> int \<Rightarrow> ('s, 'r) autocrew \<Rightarrow> ('s, 'r) system" where
  "scripted_system argv args max_length autocrew =
     \<lparr> sys_argv = argv,
       sys_executable = ''python3'',
       subprocess_run = (\<lambda>cmd s. (Inr (), s)),
       input = (\<lambda>prompt s. (Inr ''Plan a product launch event'', s)),
       parse_arguments = (\<lambda>s. (Return args, s)),
       check_latest_version = (\<lambda>s. ((AUTOCREW_VERSION, ''You are running the latest version of AutoCrew.''), s)),
       version_newer = (\<lambda>a b. Inr False),
       install_dependencies = (\<lambda>s. (Inr (), s)),
       upgrade_autocrew = (\<lambda>v s. (Inr (), s)),
       update_config_file_with_params = (\<lambda>d w s. (Inr (), s)),
       new_AutoCrew = (\<lambda>s. (Inr autocrew, s)),
       config_getint = (\<lambda>s. (Inr max_length, s)) \<rparr>"

definition no_options :: args where
  "no_options =
     \<lparr> arg_a = False, arg_c = None, arg_d = False, arg_h = False, arg_m = None, arg_r = False,
       arg_u = False, arg_v = False, arg_w = False, overall_goal = None \<rparr>"

section \<open>Evaluating blocks\<close>

lemmas prog_defs = py_return_def sys_exit_def py_raise_def emit_def py_then_def try_except_def call_def

lemmas run_defs = program_def main_def main_try_def handle_help_def handle_install_dependencies_def
  handle_upgrade_def handle_config_update_def generate_and_run_scripts_def handle_ranking_def
  log_command_line_arguments_def scripted_system_def scripted_autocrew_def no_options_def
  truncate_overall_goal_def py_slice_to_def truthy_list_def Let_def

lemma str_int_1: "str_int 1 = ''1''"
  by (simp add: str_int_def str_nat.simps)

text \<open>\<^verbatim>\<open>handle_ranking\<close> with \<^verbatim>\<open>-r\<close> and a non-empty list of paths, by the answers of the two calls.\<close>

lemma handle_ranking_given_paths:
  assumes "arg_r args" and "csv_file_paths \<noteq> []"
  shows "handle_ranking args autocrew goal csv_file_paths s =
     (case rank_crews autocrew csv_file_paths (overall_goal args) (arg_v args) s of
        (Inl e, s1) \<Rightarrow>
          (Exit 1,
           [LogInfo ''Ranking process initiated.'',
            RankCrews csv_file_paths (overall_goal args) (arg_v args),
            LogException ''An error occurred during script ranking.''], s1)
      | (Inr (ranked_crews, overall_summary), s1) \<Rightarrow>
          (case save_ranking_output autocrew ranked_crews goal s1 of
             (Inl e, s2) \<Rightarrow>
               (Exit 1,
                [LogInfo ''Ranking process initiated.'',
                 RankCrews csv_file_paths (overall_goal args) (arg_v args),
                 LogInfo (''Ranking prompt:'' @ [newline] @ overall_summary @ [newline]),
                 SaveRankingOutput ranked_crews goal,
                 LogException ''An error occurred during script ranking.''], s2)
           | (Inr u, s2) \<Rightarrow>
               (Return (),
                [LogInfo ''Ranking process initiated.'',
                 RankCrews csv_file_paths (overall_goal args) (arg_v args),
                 LogInfo (''Ranking prompt:'' @ [newline] @ overall_summary @ [newline]),
                 SaveRankingOutput ranked_crews goal,
                 LogInfo ''Ranking process completed.''], s2)))"
  using assms
  by (simp add: handle_ranking_def prog_defs split: prod.splits sum.splits)

text \<open>\<^verbatim>\<open>handle_ranking\<close> with \<^verbatim>\<open>-r\<close> and no paths: discovery first.\<close>

lemma handle_ranking_discovers:
  assumes "arg_r args"
  shows "handle_ranking args autocrew goal [] s =
     (case get_existing_scripts autocrew goal s of
        (Inl e, s0) \<Rightarrow>
          (Exit 1,
           [LogInfo ''Ranking process initiated.'', GetExistingScripts goal,
            LogException ''An error occurred during script ranking.''], s0)
      | (Inr found, s0) \<Rightarrow>
          if found = [] then
            (Exit 1,
             [LogInfo ''Ranking process initiated.'', GetExistingScripts goal,
              LogError ''No existing scripts found to rank.''], s0)
          else
            (case handle_ranking args autocrew goal found s0 of
               (res, tr, s') \<Rightarrow>
                 (res, LogInfo ''Ranking process initiated.'' # GetExistingScripts goal # tl tr, s')))"
  using assms
  by (simp add: handle_ranking_def prog_defs split: prod.splits sum.splits)

lemma run_scripts_events:
  "run_scripts sys paths s = (res, tr, s') \<Longrightarrow>
     generation_calls tr = [] \<and> \<not> reports_error tr \<and> (\<forall>k. res \<noteq> Exit k)"
proof (induction paths arbitrary: s res tr s')
  case Nil
  then show ?case by (auto simp: prog_defs reports_error_def)
next
  case (Cons path rest)
  obtain x s1 where c: "subprocess_run sys [sys_executable sys, replace_csv_py path] s = (x, s1)"
    by (cases "subprocess_run sys [sys_executable sys, replace_csv_py path] s")
  show ?case
  proof (cases x)
    case (Inl e)
    with c Cons.prems show ?thesis by (auto simp: prog_defs Let_def reports_error_def)
  next
    case (Inr u)
    obtain res2 tr2 s2 where r: "run_scripts sys rest s1 = (res2, tr2, s2)"
      by (cases "run_scripts sys rest s1")
    from Cons.IH [OF r] have "generation_calls tr2 = []" "\<not> reports_error tr2" "\<forall>k. res2 \<noteq> Exit k"
      by auto
    with c Inr r Cons.prems show ?thesis
      by (cases res2) (auto simp: prog_defs Let_def reports_error_def)
  qed
qed

text \<open>\<^verbatim>\<open>generate_and_run_scripts\<close> when none of \<^verbatim>\<open>-c -h -d -u\<close> is set.\<close>

lemma generate_and_run_scripts_runs:
  assumes "\<not> (truthy_list (arg_c args) \<or> arg_h args \<or> arg_d args \<or> arg_u args)"
  shows "generate_and_run_scripts args sys autocrew goal s =
     (let n = (case arg_m args of None \<Rightarrow> 1 | Some k \<Rightarrow> if k = 0 then 1 else k);
          started = [LogInfo (''Generating '' @ str_int n @ '' alternative scripts...''),
                     GenerateScripts goal n]
      in case generate_scripts autocrew goal n s of
           (Inl e, s1) \<Rightarrow>
             (Exit 1, started @ [LogException ''An error occurred during script generation.''], s1)
         | (Inr csv_file_paths, s1) \<Rightarrow>
             if arg_a args then
               (case run_scripts sys csv_file_paths s1 of
                  (Return u, tr, s2) \<Rightarrow> (Return csv_file_paths, started @ tr, s2)
                | (Raise e, tr, s2) \<Rightarrow>
                    (Exit 1, started @ tr @ [LogException ''An error occurred during script generation.''], s2)
                | (Exit k, tr, s2) \<Rightarrow> (Exit k, started @ tr, s2))
             else (Return csv_file_paths, started, s1))"
  using assms
  by (simp add: generate_and_run_scripts_def prog_defs Let_def split: prod.splits sum.splits result.splits)

lemma generation_calls_append:
  "generation_calls (tr @ tr2) = generation_calls tr @ generation_calls tr2"
  by (induction tr rule: generation_calls.induct) auto

section \<open>Exit status and error reports, block by block\<close>




























section \<open>The claims\<close>

subsection \<open>C1: the ranking is a permutation of the candidates\<close>







subsection \<open>C2: the goal text handed to generation\<close>

text \<open>
  C2. The claim asks for the full goal in every generation call. \<^verbatim>\<open>main\<close> passes
  \<^verbatim>\<open>truncated_overall_goal\<close> to \<^verbatim>\<open>generate_and_run_scripts\<close>, which passes it on to
  \<^verbatim>\<open>generate_scripts\<close>: with the default maximum of 40 and a goal of 53 characters, the
  one generation call of the run receives the first 40 characters only, while the
  ranking call of the same run receives the goal in full.
\<close>

theorem generation_receives_truncated_goal:
  "program (scripted_system [''autocrew.py'', ''-r'', ''Plan a product launch event for the spring collection'']
        (no_options\<lparr>arg_r := True,
           overall_goal := Some ''Plan a product launch event for the spring collection''\<rparr>) 40
        (scripted_autocrew (Inr [''crew_1.csv'']) (Inr []) (Inr (''1'', ''PROMPT'')) (Inr ()))) ()
   = (Exit 0,
      [LogInfo ''Starting AutoCrew script'',
       LogInfo ''Command-line arguments: -r Plan a product launch event for the spring collection'',
       LogInfo (generate_startup_message AUTOCREW_VERSION ''You are running the latest version of AutoCrew.''),
       NewAutoCrew, LogConfigWithRedactedApiKeys, ConfigGetint,
       LogInfo ''Generating 1 alternative scripts...'',
       GenerateScripts ''Plan a product launch event for the spri'' 1,
       LogInfo ''Ranking process initiated.'',
       RankCrews [''crew_1.csv''] (Some ''Plan a product launch event for the spring collection'') False,
       LogInfo (''Ranking prompt:'' @ [newline] @ ''PROMPT'' @ [newline]),
       SaveRankingOutput ''1'' ''Plan a product launch event for the spri'',
       LogInfo ''Ranking process completed.'',
       LogInfo ''AutoCrew script finished successfully''],
      ())"
  by (simp add: run_defs prog_defs str_int_1)

subsection \<open>C3: ranking without candidates\<close>

text \<open>
  C3. When ranking is requested, the generation step has produced no path and discovery
  finds none for the goal's identifier, \<^verbatim>\<open>handle_ranking\<close> logs the error
  "No existing scripts found to rank." and leaves with exit status 1; no ranking call
  and no save call is issued.
\<close>

theorem handle_ranking_empty_exits:
  assumes "arg_r args"
      and "get_existing_scripts autocrew goal s = (Inr [], s1)"
  shows "handle_ranking args autocrew goal [] s =
           (Exit 1,
            [LogInfo ''Ranking process initiated.'', GetExistingScripts goal,
             LogError ''No existing scripts found to rank.''],
            s1)"
  using assms by (simp add: handle_ranking_def prog_defs)

theorem handle_ranking_empty_exits_witness:
  "arg_r (no_options\<lparr>arg_r := True, overall_goal := Some ''Plan a product launch event''\<rparr>)
   \<and> get_existing_scripts (scripted_autocrew (Inr []) (Inr []) (Inr (''1'', ''PROMPT'')) (Inr ()))
        ''Plan a product launch event'' () = (Inr [], ())
   \<and> handle_ranking (no_options\<lparr>arg_r := True, overall_goal := Some ''Plan a product launch event''\<rparr>)
        (scripted_autocrew (Inr []) (Inr []) (Inr (''1'', ''PROMPT'')) (Inr ()))
        ''Plan a product launch event'' [] ()
      = (Exit 1,
         [LogInfo ''Ranking process initiated.'', GetExistingScripts ''Plan a product launch event'',
          LogError ''No existing scripts found to rank.''],
         ())"
  using handle_ranking_empty_exits
    [of "no_options\<lparr>arg_r := True, overall_goal := Some ''Plan a product launch event''\<rparr>"
        "scripted_autocrew (Inr []) (Inr []) (Inr (''1'', ''PROMPT'')) (Inr ())"
        "''Plan a product launch event''" "()" "()"]
  by (simp add: scripted_autocrew_def no_options_def)

subsection \<open>C4: the exit status\<close>




subsection \<open>C5: the number of candidates requested\<close>

text \<open>
  C5. The claim asks for a count of at least 1 from every path of the parser.
  \<^verbatim>\<open>positive_int\<close> checks \<^verbatim>\<open>ivalue <= 0\<close> on its first path only: for \<^verbatim>\<open>-m abc\<close> it
  prompts, and the answer \<^verbatim>\<open>-5\<close> is returned as it is; \<^verbatim>\<open>generate_and_run_scripts\<close> then
  requests \<^verbatim>\<open>-5\<close> scripts.
\<close>

theorem positive_int_fallback_not_positive:
  "positive_int py_int ''abc'' [''-5''] =
     (Return (- 5), [''Please specify the total number of alternative scripts to generate: ''], [])
   \<and> generate_and_run_scripts (no_options\<lparr>arg_m := Some (- 5), overall_goal := Some ''goal''\<rparr>)
        (scripted_system [''autocrew.py'', ''-m'', ''abc'', ''goal''] no_options 40
           (scripted_autocrew (Inr []) (Inr []) (Inr (''1'', ''PROMPT'')) (Inr ())))
        (scripted_autocrew (Inr []) (Inr []) (Inr (''1'', ''PROMPT'')) (Inr ())) ''goal'' ()
     = (Return [],
        [LogInfo ''Generating -5 alternative scripts...'', GenerateScripts ''goal'' (- 5)],
        ())"
  by (simp add: positive_int_def py_int_def strip_def is_space_def is_digit_def digit_val_def
        run_defs prog_defs str_int_def str_nat.simps)

text \<open>The two paths that the claim describes correctly.\<close>

lemma positive_int_direct_path:
  "to_int v = Some k \<Longrightarrow> positive_int to_int v stdin = (Return n, out, rest) \<Longrightarrow> 1 \<le> n"
  by (auto simp: positive_int_def split: if_splits)

lemma count_defaults_to_1:
  assumes "arg_m args = None"
      and "\<not> (truthy_list (arg_c args) \<or> arg_h args \<or> arg_d args \<or> arg_u args)"
      and "generate_and_run_scripts args sys autocrew goal s = (res, tr, s')"
  shows "generation_calls tr = [(goal, 1)]"
  using assms(1,3)
  by (auto simp: generate_and_run_scripts_runs [OF assms(2)] Let_def generation_calls_append
        split: prod.splits sum.splits result.splits if_splits
        dest: run_scripts_events)

subsection \<open>C6: ranking and earlier candidates\<close>

text \<open>
  C6, as amended. When ranking is requested, what is ranked is decided by the list of
  paths that the generation step hands over. A non-empty list is ranked as it is, and
  discovery is not consulted. Only for an empty list \<^verbatim>\<open>handle_ranking\<close> discovers the
  candidates stored for the truncated goal and ranks those; \<^verbatim>\<open>handle_ranking\<close> itself
  never issues a generation call. The generation step before it issues one generation
  call for the goal whenever none of \<^verbatim>\<open>-c -h -d -u\<close> is set, also when candidates of an
  earlier run exist.
\<close>

theorem ranking_prefers_fresh_candidates:
  assumes "arg_r args"
  shows "(csv_file_paths \<noteq> [] \<longrightarrow>
            (\<forall>res tr s'. handle_ranking args autocrew goal csv_file_paths s = (res, tr, s') \<longrightarrow>
               generation_calls tr = [] \<and> discovery_calls tr = []
               \<and> ranking_calls tr = [(csv_file_paths, overall_goal args, arg_v args)]))
       \<and> (get_existing_scripts autocrew goal s = (Inr found, s1) \<and> found \<noteq> [] \<longrightarrow>
            (\<forall>res tr s'. handle_ranking args autocrew goal [] s = (res, tr, s') \<longrightarrow>
               generation_calls tr = [] \<and> discovery_calls tr = [goal]
               \<and> ranking_calls tr = [(found, overall_goal args, arg_v args)]))
       \<and> (\<not> (truthy_list (arg_c args) \<or> arg_h args \<or> arg_d args \<or> arg_u args) \<longrightarrow>
            (\<forall>res tr s'. generate_and_run_scripts args sys autocrew goal s = (res, tr, s') \<longrightarrow>
               generation_calls tr =
                 [(goal, case arg_m args of None \<Rightarrow> 1 | Some k \<Rightarrow> if k = 0 then 1 else k)]))"
proof -
  have given: "generation_calls tr = [] \<and> discovery_calls tr = []
               \<and> ranking_calls tr = [(ps, overall_goal args, arg_v args)]"
    if "ps \<noteq> []" and "handle_ranking args autocrew goal ps s0 = (res, tr, s')"
    for ps s0 res tr s'
    using that assms
    by (auto simp: handle_ranking_given_paths split: prod.splits sum.splits)
  have found: "generation_calls tr = [] \<and> discovery_calls tr = [goal]
               \<and> ranking_calls tr = [(found, overall_goal args, arg_v args)]"
    if d: "get_existing_scripts autocrew goal s = (Inr found, s1)" and n: "found \<noteq> []"
      and h: "handle_ranking args autocrew goal [] s = (res, tr, s')"
    for res tr s'
  proof -
    obtain res2 tr2 s2 where r: "handle_ranking args autocrew goal found s1 = (res2, tr2, s2)"
      by (cases "handle_ranking args autocrew goal found s1")
    from given [OF n r] have g: "generation_calls tr2 = []" "discovery_calls tr2 = []"
      "ranking_calls tr2 = [(found, overall_goal args, arg_v args)]" by auto
    have "\<exists>rest. tr2 = LogInfo ''Ranking process initiated.'' # rest"
      using r n assms by (auto simp: handle_ranking_given_paths split: prod.splits sum.splits)
    then obtain rest where t: "tr2 = LogInfo ''Ranking process initiated.'' # rest" by blast
    from h d n r assms have "tr = LogInfo ''Ranking process initiated.'' # GetExistingScripts goal # rest"
      by (simp add: handle_ranking_discovers t)
    with g t show ?thesis by simp
  qed
  have generated: "generation_calls tr =
       [(goal, case arg_m args of None \<Rightarrow> 1 | Some k \<Rightarrow> if k = 0 then 1 else k)]"
    if nf: "\<not> (truthy_list (arg_c args) \<or> arg_h args \<or> arg_d args \<or> arg_u args)"
      and run: "generate_and_run_scripts args sys autocrew goal s = (res, tr, s')"
    for res tr s'
    using run
    by (auto simp: generate_and_run_scripts_runs [OF nf] Let_def generation_calls_append
          split: prod.splits sum.splits result.splits if_splits
          dest: run_scripts_events)
  show ?thesis
    using given found generated by blast
qed

text \<open>
  Two candidates of an earlier run are stored. Fresh paths are ranked without a look
  at the store; without fresh paths the stored candidates are ranked; the generation
  step issues its call.
\<close>

theorem ranking_prefers_fresh_candidates_witness:
  "arg_r (no_options\<lparr>arg_r := True, overall_goal := Some ''Plan a product launch event''\<rparr>)
   \<and> handle_ranking (no_options\<lparr>arg_r := True, overall_goal := Some ''Plan a product launch event''\<rparr>)
        (scripted_autocrew (Inr [''new_1.csv'']) (Inr [''old_1.csv'', ''old_2.csv''])
           (Inr (''1'', ''PROMPT'')) (Inr ()))
        ''Plan a product launch event'' [''new_1.csv''] ()
      = (Return (),
         [LogInfo ''Ranking process initiated.'',
          RankCrews [''new_1.csv''] (Some ''Plan a product launch event'') False,
          LogInfo (''Ranking prompt:'' @ [newline] @ ''PROMPT'' @ [newline]),
          SaveRankingOutput ''1'' ''Plan a product launch event'',
          LogInfo ''Ranking process completed.''],
         ())
   \<and> handle_ranking (no_options\<lparr>arg_r := True, overall_goal := Some ''Plan a product launch event''\<rparr>)
        (scripted_autocrew (Inr [''new_1.csv'']) (Inr [''old_1.csv'', ''old_2.csv''])
           (Inr (''1'', ''PROMPT'')) (Inr ()))
        ''Plan a product launch event'' [] ()
      = (Return (),
         [LogInfo ''Ranking process initiated.'',
          GetExistingScripts ''Plan a product launch event'',
          RankCrews [''old_1.csv'', ''old_2.csv''] (Some ''Plan a product launch event'') False,
          LogInfo (''Ranking prompt:'' @ [newline] @ ''PROMPT'' @ [newline]),
          SaveRankingOutput ''1'' ''Plan a product launch event'',
          LogInfo ''Ranking process completed.''],
         ())
   \<and> generate_and_run_scripts
        (no_options\<lparr>arg_r := True, overall_goal := Some ''Plan a product launch event''\<rparr>)
        (scripted_system [''autocrew.py'', ''-r'', ''Plan a product launch event''] no_options 40
           (scripted_autocrew (Inr [''new_1.csv'']) (Inr [''old_1.csv'', ''old_2.csv''])
              (Inr (''1'', ''PROMPT'')) (Inr ())))
        (scripted_autocrew (Inr [''new_1.csv'']) (Inr [''old_1.csv'', ''old_2.csv''])
           (Inr (''1'', ''PROMPT'')) (Inr ()))
        ''Plan a product launch event'' ()
      = (Return [''new_1.csv''],
         [LogInfo ''Generating 1 alternative scripts...'',
          GenerateScripts ''Plan a product launch event'' 1],
         ())"
  using ranking_prefers_fresh_candidates
    [where args = "no_options\<lparr>arg_r := True, overall_goal := Some ''Plan a product launch event''\<rparr>"
       and csv_file_paths = "[''new_1.csv'']"
       and autocrew = "scripted_autocrew (Inr [''new_1.csv'']) (Inr [''old_1.csv'', ''old_2.csv''])
           (Inr (''1'', ''PROMPT'')) (Inr ())"
       and goal = "''Plan a product launch event''" and s = "()" and ?s1.0 = "()"
       and found = "[''old_1.csv'', ''old_2.csv'']"
       and sys = "scripted_system [''autocrew.py'', ''-r'', ''Plan a product launch event''] no_options 40
                (scripted_autocrew (Inr [''new_1.csv'']) (Inr [''old_1.csv'', ''old_2.csv''])
                   (Inr (''1'', ''PROMPT'')) (Inr ()))"]
  by (simp add: run_defs prog_defs str_int_1)

text \<open>
  A run with \<^verbatim>\<open>-r\<close> for a goal that has two candidates from an earlier run: one
  generation call is issued, the new candidate alone is ranked, and discovery is never
  called.
\<close>

theorem ranking_after_generation_counterexample:
  "program (scripted_system [''autocrew.py'', ''-r'', ''Plan a product launch event'']
        (no_options\<lparr>arg_r := True, overall_goal := Some ''Plan a product launch event''\<rparr>) 40
        (scripted_autocrew (Inr [''new_1.csv'']) (Inr [''old_1.csv'', ''old_2.csv''])
           (Inr (''1'', ''PROMPT'')) (Inr ()))) ()
   = (Exit 0,
      [LogInfo ''Starting AutoCrew script'',
       LogInfo ''Command-line arguments: -r Plan a product launch event'',
       LogInfo (generate_startup_message AUTOCREW_VERSION ''You are running the latest version of AutoCrew.''),
       NewAutoCrew, LogConfigWithRedactedApiKeys, ConfigGetint,
       LogInfo ''Generating 1 alternative scripts...'',
       GenerateScripts ''Plan a product launch event'' 1,
       LogInfo ''Ranking process initiated.'',
       RankCrews [''new_1.csv''] (Some ''Plan a product launch event'') False,
       LogInfo (''Ranking prompt:'' @ [newline] @ ''PROMPT'' @ [newline]),
       SaveRankingOutput ''1'' ''Plan a product launch event'',
       LogInfo ''Ranking process completed.'',
       LogInfo ''AutoCrew script finished successfully''],
      ())"
  by (simp add: run_defs prog_defs str_int_1)

subsection \<open>C7: truncation of the goal\<close>

text \<open>
  C7, as amended. For every goal and every configured maximum, the truncated goal is a
  function of the two (equal inputs give equal identifiers) and a prefix of the goal.
  For a maximum of at least 0 it is the first \<open>m\<close> characters, so its length is at most
  the maximum. For a negative maximum the slice drops the last \<open>-m\<close> characters
  instead, and the length is that of the goal less \<open>-m\<close>, or 0.
\<close>

theorem truncate_overall_goal_prefix_bounded:
  "prefix (truncate_overall_goal g m) g
   \<and> (0 \<le> m \<longrightarrow> truncate_overall_goal g m = take (nat m) g
                \<and> int (length (truncate_overall_goal g m)) \<le> m)
   \<and> (m < 0 \<longrightarrow> length (truncate_overall_goal g m) = length g - nat (- m))
   \<and> (g = g' \<and> m = m' \<longrightarrow> truncate_overall_goal g m = truncate_overall_goal g' m')"
  by (auto simp: truncate_overall_goal_def py_slice_to_def take_is_prefix)

theorem truncate_overall_goal_prefix_bounded_witness:
  "(0::int) \<le> 10
   \<and> prefix (truncate_overall_goal ''Plan a product launch event'' 10) ''Plan a product launch event''
   \<and> truncate_overall_goal ''Plan a product launch event'' 10 = ''Plan a pro''
   \<and> int (length (truncate_overall_goal ''Plan a product launch event'' 10)) \<le> 10
   \<and> (- 2 :: int) < 0
   \<and> prefix (truncate_overall_goal ''hello'' (- 2)) ''hello''
   \<and> length (truncate_overall_goal ''hello'' (- 2)) = length ''hello'' - nat (- (- 2))"
  using truncate_overall_goal_prefix_bounded [of "''Plan a product launch event''" 10]
    truncate_overall_goal_prefix_bounded [of "''hello''" "- 2"]
  by simp

text \<open>A maximum of \<open>-2\<close> in the configuration: the identifier has 3 characters.\<close>

theorem truncate_negative_maximum_counterexample:
  "truncate_overall_goal ''hello'' (- 2) = ''hel''
   \<and> \<not> int (length (truncate_overall_goal ''hello'' (- 2))) \<le> - 2"
  by (simp add: truncate_overall_goal_def py_slice_to_def)

subsection \<open>C8: what the report writer receives\<close>

text \<open>
  C8, as amended. In every ranking that succeeds, whether its paths come from the
  generation step or from discovery, \<^verbatim>\<open>save_ranking_output\<close> is called exactly once,
  with the ranking that \<^verbatim>\<open>rank_crews\<close> returned and the truncated goal. The evaluation
  prompt that \<^verbatim>\<open>rank_crews\<close> returned beside the ranking goes into one log record and is
  no argument of the save call.
\<close>

theorem handle_ranking_saves_ranking_and_goal:
  assumes "arg_r args"
      and "handle_ranking args autocrew goal csv_file_paths s = (Return (), tr, s')"
  shows "\<exists>ranked_paths ranked_crews overall_summary s0 s1.
           rank_crews autocrew ranked_paths (overall_goal args) (arg_v args) s0
             = (Inr (ranked_crews, overall_summary), s1)
           \<and> save_ranking_output autocrew ranked_crews goal s1 = (Inr (), s')
           \<and> tr = (if csv_file_paths = []
                    then [LogInfo ''Ranking process initiated.'', GetExistingScripts goal]
                    else [LogInfo ''Ranking process initiated.''])
                   @ [RankCrews ranked_paths (overall_goal args) (arg_v args),
                      LogInfo (''Ranking prompt:'' @ [newline] @ overall_summary @ [newline]),
                      SaveRankingOutput ranked_crews goal,
                      LogInfo ''Ranking process completed.'']
           \<and> save_calls tr = [(ranked_crews, goal)]"
proof -
  have given: "\<exists>ranked_crews overall_summary s1.
           rank_crews autocrew ps (overall_goal args) (arg_v args) s0
             = (Inr (ranked_crews, overall_summary), s1)
           \<and> save_ranking_output autocrew ranked_crews goal s1 = (Inr (), s2)
           \<and> tr2 = [LogInfo ''Ranking process initiated.'',
                    RankCrews ps (overall_goal args) (arg_v args),
                    LogInfo (''Ranking prompt:'' @ [newline] @ overall_summary @ [newline]),
                    SaveRankingOutput ranked_crews goal,
                    LogInfo ''Ranking process completed.'']"
    if "ps \<noteq> []" and "handle_ranking args autocrew goal ps s0 = (Return (), tr2, s2)"
    for ps s0 tr2 s2
    using that assms(1)
    by (auto simp: handle_ranking_given_paths split: prod.splits sum.splits)
  show ?thesis
  proof (cases "csv_file_paths = []")
    case False
    from given [OF False assms(2)] False show ?thesis by fastforce
  next
    case True
    obtain x s0 where disc: "get_existing_scripts autocrew goal s = (x, s0)"
      by (cases "get_existing_scripts autocrew goal s")
    show ?thesis
    proof (cases x)
      case (Inl e)
      with assms True disc show ?thesis by (simp add: handle_ranking_discovers)
    next
      case (Inr found)
      show ?thesis
      proof (cases "found = []")
        case True
        with assms \<open>csv_file_paths = []\<close> disc Inr show ?thesis
          by (simp add: handle_ranking_discovers)
      next
        case False
        obtain res2 tr2 s2 where r2: "handle_ranking args autocrew goal found s0 = (res2, tr2, s2)"
          by (cases "handle_ranking args autocrew goal found s0")
        from assms \<open>csv_file_paths = []\<close> disc Inr False r2
        have eq: "res2 = Return ()" "s2 = s'"
          "tr = LogInfo ''Ranking process initiated.'' # GetExistingScripts goal # tl tr2"
          by (auto simp: handle_ranking_discovers)
        from given [OF False] r2 eq obtain ranked_crews overall_summary s1 where
          g: "rank_crews autocrew found (overall_goal args) (arg_v args) s0
                = (Inr (ranked_crews, overall_summary), s1)"
             "save_ranking_output autocrew ranked_crews goal s1 = (Inr (), s')"
             "tr2 = [LogInfo ''Ranking process initiated.'',
                    RankCrews found (overall_goal args) (arg_v args),
                    LogInfo (''Ranking prompt:'' @ [newline] @ overall_summary @ [newline]),
                    SaveRankingOutput ranked_crews goal,
                    LogInfo ''Ranking process completed.'']"
          by blast
        from g eq \<open>csv_file_paths = []\<close> show ?thesis by fastforce
      qed
    qed
  qed
qed

theorem handle_ranking_saves_ranking_and_goal_witness:
  "arg_r (no_options\<lparr>arg_r := True, overall_goal := Some ''Plan a product launch event''\<rparr>)
   \<and> handle_ranking
        (no_options\<lparr>arg_r := True, overall_goal := Some ''Plan a product launch event''\<rparr>)
        (scripted_autocrew (Inr []) (Inr []) (Inr (''2, 1'', ''PROMPT'')) (Inr ()))
        ''Plan a pro'' [''a_1.csv'', ''a_2.csv''] ()
      = (Return (),
         [LogInfo ''Ranking process initiated.'',
          RankCrews [''a_1.csv'', ''a_2.csv''] (Some ''Plan a product launch event'') False,
          LogInfo (''Ranking prompt:'' @ [newline] @ ''PROMPT'' @ [newline]),
          SaveRankingOutput ''2, 1'' ''Plan a pro'',
          LogInfo ''Ranking process completed.''],
         ())
   \<and> save_calls
        [LogInfo ''Ranking process initiated.'',
         RankCrews [''a_1.csv'', ''a_2.csv''] (Some ''Plan a product launch event'') False,
         LogInfo (''Ranking prompt:'' @ [newline] @ ''PROMPT'' @ [newline]),
         SaveRankingOutput ''2, 1'' ''Plan a pro'',
         LogInfo ''Ranking process completed.'']
      = [(''2, 1'', ''Plan a pro'')]"
proof -
  let ?args = "no_options\<lparr>arg_r := True, overall_goal := Some ''Plan a product launch event''\<rparr>"
  let ?api = "scripted_autocrew (Inr []) (Inr []) (Inr (''2, 1'', ''PROMPT'')) (Inr ())
                :: (unit, string) autocrew"
  have r: "arg_r ?args" by (simp add: no_options_def)
  have h: "handle_ranking ?args ?api ''Plan a pro'' [''a_1.csv'', ''a_2.csv''] ()
      = (Return (),
         [LogInfo ''Ranking process initiated.'',
          RankCrews [''a_1.csv'', ''a_2.csv''] (Some ''Plan a product launch event'') False,
          LogInfo (''Ranking prompt:'' @ [newline] @ ''PROMPT'' @ [newline]),
          SaveRankingOutput ''2, 1'' ''Plan a pro'',
          LogInfo ''Ranking process completed.''],
         ())"
    by (simp add: run_defs prog_defs)
  from handle_ranking_saves_ranking_and_goal [OF r h]
  have "save_calls
        [LogInfo ''Ranking process initiated.'',
         RankCrews [''a_1.csv'', ''a_2.csv''] (Some ''Plan a product launch event'') False,
         LogInfo (''Ranking prompt:'' @ [newline] @ ''PROMPT'' @ [newline]),
         SaveRankingOutput ''2, 1'' ''Plan a pro'',
         LogInfo ''Ranking process completed.'']
      = [(''2, 1'', ''Plan a pro'')]"
    by (auto simp: scripted_autocrew_def)
  with r h show ?thesis by simp
qed

text \<open>
  A ranking whose evaluation prompt is the text PROMPT: the save call receives the
  ranking and the truncated goal; PROMPT is in the log record only.
\<close>

theorem prompt_not_passed_to_save_counterexample:
  "handle_ranking (no_options\<lparr>arg_r := True, overall_goal := Some ''Plan a product launch event''\<rparr>)
      (scripted_autocrew (Inr []) (Inr []) (Inr (''2, 1'', ''PROMPT'')) (Inr ()))
      ''Plan a pro'' [''a_1.csv'', ''a_2.csv''] ()
   = (Return (),
      [LogInfo ''Ranking process initiated.'',
       RankCrews [''a_1.csv'', ''a_2.csv''] (Some ''Plan a product launch event'') False,
       LogInfo (''Ranking prompt:'' @ [newline] @ ''PROMPT'' @ [newline]),
       SaveRankingOutput ''2, 1'' ''Plan a pro'',
       LogInfo ''Ranking process completed.''],
      ())"
  by (simp add: run_defs prog_defs)

subsection \<open>C9: a failed ranking leaves the candidates alone\<close>

text \<open>
  C9. Let the three methods behind \<^verbatim>\<open>handle_ranking\<close> keep the persisted candidates as
  the specification has them: discovery and ranking only read, and a report writer that
  fails has written nothing. Then whenever \<^verbatim>\<open>handle_ranking\<close> does not return normally,
  it leaves with exit status 1, the persisted candidates are what they were before, and
  it has issued no generation call: the handler only logs and exits.
\<close>

theorem handle_ranking_failure_keeps_candidates:
  assumes keep: "ranking_methods_keep_candidates cands autocrew"
      and run: "handle_ranking args autocrew goal csv_file_paths s = (res, tr, s')"
      and failed: "res \<noteq> Return ()"
  shows "res = Exit 1 \<and> cands s' = cands s \<and> generation_calls tr = []"
proof -
  have d: "\<And>g s x s1. get_existing_scripts autocrew g s = (x, s1) \<Longrightarrow> cands s1 = cands s"
    using keep unfolding ranking_methods_keep_candidates_def by (metis snd_conv)
  have r: "\<And>ps g v s x s1. rank_crews autocrew ps g v s = (x, s1) \<Longrightarrow> cands s1 = cands s"
    using keep unfolding ranking_methods_keep_candidates_def by (metis snd_conv)
  have w: "\<And>rk g s e s1. save_ranking_output autocrew rk g s = (Inl e, s1) \<Longrightarrow> cands s1 = cands s"
    using keep unfolding ranking_methods_keep_candidates_def by (metis fst_conv snd_conv)
  have on: "arg_r args"
    using run failed by (cases "arg_r args") (auto simp: handle_ranking_def prog_defs)
  have given: "res2 = Exit 1 \<and> cands s2 = cands s0 \<and> generation_calls tr2 = []"
    if "ps \<noteq> []" and "handle_ranking args autocrew goal ps s0 = (res2, tr2, s2)" and "res2 \<noteq> Return ()"
    for ps s0 res2 tr2 s2
    using that on
    by (auto simp: handle_ranking_given_paths split: prod.splits sum.splits dest: r w)
      (metis r w)
  show ?thesis
  proof (cases "csv_file_paths = []")
    case False
    from given [OF False run failed] show ?thesis .
  next
    case True
    obtain x s0 where disc: "get_existing_scripts autocrew goal s = (x, s0)"
      by (cases "get_existing_scripts autocrew goal s")
    have c0: "cands s0 = cands s" using d [OF disc] .
    show ?thesis
    proof (cases x)
      case (Inl e)
      with run True disc on c0 show ?thesis by (auto simp: handle_ranking_discovers)
    next
      case (Inr found)
      show ?thesis
      proof (cases "found = []")
        case True
        with run \<open>csv_file_paths = []\<close> disc Inr on c0 show ?thesis
          by (auto simp: handle_ranking_discovers)
      next
        case False
        obtain res2 tr2 s2 where r2: "handle_ranking args autocrew goal found s0 = (res2, tr2, s2)"
          by (cases "handle_ranking args autocrew goal found s0")
        have hd: "\<exists>rest. tr2 = LogInfo ''Ranking process initiated.'' # rest"
          using r2 False on by (auto simp: handle_ranking_given_paths split: prod.splits sum.splits)
        from run \<open>csv_file_paths = []\<close> disc Inr False r2 on
        have eq: "res = res2" "s' = s2"
          "tr = LogInfo ''Ranking process initiated.'' # GetExistingScripts goal # tl tr2"
          by (auto simp: handle_ranking_discovers)
        from eq failed have "res2 \<noteq> Return ()" by simp
        from given [OF False r2 this] hd eq c0 show ?thesis by auto
      qed
    qed
  qed
qed

text \<open>
  Two candidates of an earlier run are stored. In the first run the ranking of the
  discovered candidates fails, in the second the report writer fails; the stored
  candidates are unchanged both times.
\<close>

theorem handle_ranking_failure_keeps_candidates_witness:
  "ranking_methods_keep_candidates (\<lambda>stored. stored)
      (scripted_autocrew (Inr []) (Inr [''old_1.csv'', ''old_2.csv''])
         (Inl (OtherException ''RankingUnparseable'')) (Inr ()) :: (string list, string) autocrew)
   \<and> handle_ranking (no_options\<lparr>arg_r := True, overall_goal := Some ''Plan a product launch event''\<rparr>)
        (scripted_autocrew (Inr []) (Inr [''old_1.csv'', ''old_2.csv''])
           (Inl (OtherException ''RankingUnparseable'')) (Inr ()) :: (string list, string) autocrew)
        ''Plan a product launch event'' [] [''old_1.csv'', ''old_2.csv'']
      = (Exit 1,
         [LogInfo ''Ranking process initiated.'', GetExistingScripts ''Plan a product launch event'',
          RankCrews [''old_1.csv'', ''old_2.csv''] (Some ''Plan a product launch event'') False,
          LogException ''An error occurred during script ranking.''],
         [''old_1.csv'', ''old_2.csv''])
   \<and> ranking_methods_keep_candidates (\<lambda>stored. stored)
      (scripted_autocrew (Inr []) (Inr [''old_1.csv'', ''old_2.csv''])
         (Inr (''2, 1'', ''PROMPT'')) (Inl (OtherException ''StorageError'')) :: (string list, string) autocrew)
   \<and> handle_ranking (no_options\<lparr>arg_r := True, overall_goal := Some ''Plan a product launch event''\<rparr>)
        (scripted_autocrew (Inr []) (Inr [''old_1.csv'', ''old_2.csv''])
           (Inr (''2, 1'', ''PROMPT'')) (Inl (OtherException ''StorageError'')) :: (string list, string) autocrew)
        ''Plan a product launch event'' [] [''old_1.csv'', ''old_2.csv'']
      = (Exit 1,
         [LogInfo ''Ranking process initiated.'', GetExistingScripts ''Plan a product launch event'',
          RankCrews [''old_1.csv'', ''old_2.csv''] (Some ''Plan a product launch event'') False,
          LogInfo (''Ranking prompt:'' @ [newline] @ ''PROMPT'' @ [newline]),
          SaveRankingOutput ''2, 1'' ''Plan a product launch event'',
          LogException ''An error occurred during script ranking.''],
         [''old_1.csv'', ''old_2.csv''])"
proof -
  let ?args = "no_options\<lparr>arg_r := True, overall_goal := Some ''Plan a product launch event''\<rparr>"
  let ?a = "scripted_autocrew (Inr []) (Inr [''old_1.csv'', ''old_2.csv''])
         (Inl (OtherException ''RankingUnparseable'')) (Inr ()) :: (string list, string) autocrew"
  let ?b = "scripted_autocrew (Inr []) (Inr [''old_1.csv'', ''old_2.csv''])
         (Inr (''2, 1'', ''PROMPT'')) (Inl (OtherException ''StorageError'')) :: (string list, string) autocrew"
  have ka: "ranking_methods_keep_candidates (\<lambda>stored. stored) ?a"
    by (simp add: ranking_methods_keep_candidates_def scripted_autocrew_def)
  have kb: "ranking_methods_keep_candidates (\<lambda>stored. stored) ?b"
    by (simp add: ranking_methods_keep_candidates_def scripted_autocrew_def)
  have a: "handle_ranking ?args ?a ''Plan a product launch event'' [] [''old_1.csv'', ''old_2.csv'']
      = (Exit 1,
         [LogInfo ''Ranking process initiated.'', GetExistingScripts ''Plan a product launch event'',
          RankCrews [''old_1.csv'', ''old_2.csv''] (Some ''Plan a product launch event'') False,
          LogException ''An error occurred during script ranking.''],
         [''old_1.csv'', ''old_2.csv''])"
    by (simp add: run_defs prog_defs)
  have b: "handle_ranking ?args ?b ''Plan a product launch event'' [] [''old_1.csv'', ''old_2.csv'']
      = (Exit 1,
         [LogInfo ''Ranking process initiated.'', GetExistingScripts ''Plan a product launch event'',
          RankCrews [''old_1.csv'', ''old_2.csv''] (Some ''Plan a product launch event'') False,
          LogInfo (''Ranking prompt:'' @ [newline] @ ''PROMPT'' @ [newline]),
          SaveRankingOutput ''2, 1'' ''Plan a product launch event'',
          LogException ''An error occurred during script ranking.''],
         [''old_1.csv'', ''old_2.csv''])"
    by (simp add: run_defs prog_defs)
  note handle_ranking_failure_keeps_candidates [OF ka a] handle_ranking_failure_keeps_candidates [OF kb b]
  with ka kb a b show ?thesis by simp
qed

subsection \<open>C10: options that switch generation off\<close>

text \<open>
  C10. When one of \<^verbatim>\<open>-c\<close>, \<^verbatim>\<open>-h\<close>, \<^verbatim>\<open>-d\<close>, \<^verbatim>\<open>-u\<close> is set, \<^verbatim>\<open>generate_and_run_scripts\<close>
  returns the empty list, issues no call and logs nothing, whatever the goal and the
  count are. The ranking step after it therefore starts from the empty list: with
  \<^verbatim>\<open>-r\<close> and a non-empty discovery, the run issues no generation call, one discovery
  call for the goal, and one ranking call, on exactly the discovered candidates.
\<close>

theorem flags_skip_generation:
  assumes "truthy_list (arg_c args) \<or> arg_h args \<or> arg_d args \<or> arg_u args"
  shows "generate_and_run_scripts args sys autocrew goal s = (Return [], [], s)
       \<and> py_then (generate_and_run_scripts args sys autocrew goal) (handle_ranking args autocrew goal) s
           = handle_ranking args autocrew goal [] s
       \<and> (arg_r args \<and> get_existing_scripts autocrew goal s = (Inr found, s1) \<and> found \<noteq> [] \<longrightarrow>
            (\<exists>res tr s'.
               py_then (generate_and_run_scripts args sys autocrew goal) (handle_ranking args autocrew goal) s
                 = (res, tr, s')
               \<and> generation_calls tr = [] \<and> discovery_calls tr = [goal]
               \<and> ranking_calls tr = [(found, overall_goal args, arg_v args)]))"
proof -
  have g: "generate_and_run_scripts args sys autocrew goal s = (Return [], [], s)"
    using assms by (simp add: generate_and_run_scripts_def prog_defs)
  have c: "py_then (generate_and_run_scripts args sys autocrew goal) (handle_ranking args autocrew goal) s
           = handle_ranking args autocrew goal [] s"
    by (simp add: py_then_def g split: prod.splits)
  have r: "\<exists>res tr s'. handle_ranking args autocrew goal [] s = (res, tr, s')
               \<and> generation_calls tr = [] \<and> discovery_calls tr = [goal]
               \<and> ranking_calls tr = [(found, overall_goal args, arg_v args)]"
    if "arg_r args" and "get_existing_scripts autocrew goal s = (Inr found, s1)" and "found \<noteq> []"
    using that
    by (auto simp: handle_ranking_discovers handle_ranking_given_paths split: prod.splits sum.splits)
  from g c r show ?thesis by auto
qed

text \<open>\<^verbatim>\<open>-c -m 3 -r\<close> with a goal: nothing is generated, the stored candidate is ranked.\<close>

theorem flags_skip_generation_witness:
  "truthy_list (arg_c (no_options\<lparr>arg_c := Some [''BASIC.llm_endpoint=openai''], arg_m := Some 3,
       arg_r := True, overall_goal := Some ''Plan a product launch event''\<rparr>))
   \<and> generate_and_run_scripts
        (no_options\<lparr>arg_c := Some [''BASIC.llm_endpoint=openai''], arg_m := Some 3,
           arg_r := True, overall_goal := Some ''Plan a product launch event''\<rparr>)
        (scripted_system [''autocrew.py''] no_options 40
           (scripted_autocrew (Inr [''new_1.csv'']) (Inr [''old_1.csv'']) (Inr (''1'', ''PROMPT'')) (Inr ())))
        (scripted_autocrew (Inr [''new_1.csv'']) (Inr [''old_1.csv'']) (Inr (''1'', ''PROMPT'')) (Inr ()))
        ''Plan a product launch event'' ()
      = (Return [], [], ())
   \<and> py_then
        (generate_and_run_scripts
           (no_options\<lparr>arg_c := Some [''BASIC.llm_endpoint=openai''], arg_m := Some 3,
              arg_r := True, overall_goal := Some ''Plan a product launch event''\<rparr>)
           (scripted_system [''autocrew.py''] no_options 40
              (scripted_autocrew (Inr [''new_1.csv'']) (Inr [''old_1.csv'']) (Inr (''1'', ''PROMPT'')) (Inr ())))
           (scripted_autocrew (Inr [''new_1.csv'']) (Inr [''old_1.csv'']) (Inr (''1'', ''PROMPT'')) (Inr ()))
           ''Plan a product launch event'')
        (handle_ranking
           (no_options\<lparr>arg_c := Some [''BASIC.llm_endpoint=openai''], arg_m := Some 3,
              arg_r := True, overall_goal := Some ''Plan a product launch event''\<rparr>)
           (scripted_autocrew (Inr [''new_1.csv'']) (Inr [''old_1.csv'']) (Inr (''1'', ''PROMPT'')) (Inr ()))
           ''Plan a product launch event'') ()
      = (Return (),
         [LogInfo ''Ranking process initiated.'',
          GetExistingScripts ''Plan a product launch event'',
          RankCrews [''old_1.csv''] (Some ''Plan a product launch event'') False,
          LogInfo (''Ranking prompt:'' @ [newline] @ ''PROMPT'' @ [newline]),
          SaveRankingOutput ''1'' ''Plan a product launch event'',
          LogInfo ''Ranking process completed.''],
         ())"
  using flags_skip_generation
    [of "no_options\<lparr>arg_c := Some [''BASIC.llm_endpoint=openai''], arg_m := Some 3,
              arg_r := True, overall_goal := Some ''Plan a product launch event''\<rparr>"
        "scripted_system [''autocrew.py''] no_options 40
              (scripted_autocrew (Inr [''new_1.csv'']) (Inr [''old_1.csv'']) (Inr (''1'', ''PROMPT'')) (Inr ()))"
        "scripted_autocrew (Inr [''new_1.csv'']) (Inr [''old_1.csv'']) (Inr (''1'', ''PROMPT'')) (Inr ())"
        "''Plan a product launch event''" "()" "[''old_1.csv'']" "()"]
  by (simp add: run_defs prog_defs)

end
